theory Spec2Isabelle
  imports Main "HOL-Library.Word"
begin

section \<open>SparrowDB storage engine: data model\<close>

text \<open>
  The embedding follows \<^verbatim>\<open>db/db.go\<close> (dataHolder, InsertData, GetDataByKey, LoadData)
  and the compaction file (doCompaction and its helpers). Packages the two files import
  but that are not part of them (model, util, index, cache, engine, the Commitlog type)
  are either taken as parameters or modelled from the specification; each such
  definition says so.
\<close>

type_synonym u32 = "32 word"
type_synonym bytes = "8 word list"

datatype status = DataDefinitionActive | DataDefinitionRemoved

record DataDefinition =
  Key :: string
  Status :: status
  Size :: u32
  Buf :: bytes

text \<open>
  Library functions the engine calls and whose code is not in the two files. They are
  parameters of every operation: \<open>Hash32\<close> is \<^verbatim>\<open>util.Hash32\<close>, \<open>ToByteStream\<close> is
  \<^verbatim>\<open>df.ToByteStream()\<close>, \<open>NewDataDefinitionFromByteStream\<close> takes the (possibly nil)
  byte stream pointer and yields \<open>None\<close> when the call panics, \<open>bfHashes\<close> gives the
  raw hash values a bloom filter derives from a string and \<open>bfBits\<close> the size of the bit
  array \<^verbatim>\<open>util.NewBloomFilter\<close> allocates for an expected element count (the
  false-positive rate of the descriptor is fixed inside it). \<open>zeroContains\<close> is what
  \<^verbatim>\<open>Contains\<close> does on the zero value of \<^verbatim>\<open>util.BloomFilter\<close>, which has no bit array:
  its answer, or \<open>None\<close> when the call panics; neither the source files nor the
  specification say which.
\<close>

record ext =
  Hash32 :: "string \<Rightarrow> u32"
  ToByteStream :: "DataDefinition \<Rightarrow> bytes"
  NewDataDefinitionFromByteStream :: "bytes option \<Rightarrow> DataDefinition option"
  bfHashes :: "string \<Rightarrow> nat list"
  bfBits :: "nat \<Rightarrow> nat"
  zeroContains :: "string \<Rightarrow> bool option"

subsection \<open>strconv.Itoa on non-negative values\<close>

definition digit_char :: "nat \<Rightarrow> char" where
  "digit_char d = char_of (48 + d)"

function Itoa :: "nat \<Rightarrow> string" where
  "Itoa n = (if n < 10 then [digit_char n] else Itoa (n div 10) @ [digit_char (n mod 10)])"
  by pat_completeness auto
termination
  by (relation "measure id") auto

declare Itoa.simps [simp del]

definition Join :: "string \<Rightarrow> string \<Rightarrow> string" where
  "Join a b = a @ ''/'' @ b"

definition FolderCommitlog :: string where
  "FolderCommitlog = ''commitlog''"

subsection \<open>index.Entry and index.Summary\<close>

record Entry =
  eKey :: u32
  eStatus :: status
  eOffset :: int

text \<open>
  Modelled from the spec: \<^verbatim>\<open>index.Summary\<close> is not among the source files. It is a
  mapping from key hash to entry in which \<open>Add\<close> replaces any earlier entry of the same
  key hash; \<open>GetTable\<close> enumerates it. The enumeration is kept as a list with one entry
  per key hash, in the order of the last write.
\<close>

type_synonym Summary = "Entry list"

definition summary_Add :: "Entry \<Rightarrow> Summary \<Rightarrow> Summary" where
  "summary_Add e s = filter (\<lambda>x. eKey x \<noteq> eKey e) s @ [e]"

definition LookUp :: "Summary \<Rightarrow> u32 \<Rightarrow> Entry option" where
  "LookUp s k = find (\<lambda>x. eKey x = k) s"

definition Count :: "Summary \<Rightarrow> nat" where
  "Count s = length s"

definition GetTable :: "Summary \<Rightarrow> Entry list" where
  "GetTable s = s"

definition LoadIndex_entries :: "Entry list \<Rightarrow> Summary" where
  "LoadIndex_entries es = foldl (\<lambda>s e. summary_Add e s) [] es"

subsection \<open>util.BloomFilter\<close>

text \<open>
  Modelled from the spec: \<^verbatim>\<open>util.BloomFilter\<close> is not among the source files. It is a
  fixed-size bit array; \<open>Add\<close> sets the bit of every hash of the string, \<open>Contains\<close>
  tests them. \<open>zeroBloomFilter\<close> is the zero value of the struct, which a dataHolder
  holds until a filter is assigned to it. It has no bit array, and what \<open>Contains\<close> does
  on such a filter is left to the parameter \<open>zeroContains\<close>. The result of \<open>Contains\<close>
  is \<open>None\<close> when the call panics.
\<close>

record BloomFilter =
  bfSize :: nat
  bfSet :: "nat list"

definition NewBloomFilter :: "ext \<Rightarrow> nat \<Rightarrow> BloomFilter" where
  "NewBloomFilter x n = \<lparr>bfSize = bfBits x n, bfSet = []\<rparr>"

definition zeroBloomFilter :: BloomFilter where
  "zeroBloomFilter = \<lparr>bfSize = 0, bfSet = []\<rparr>"

definition bf_positions :: "ext \<Rightarrow> BloomFilter \<Rightarrow> string \<Rightarrow> nat list" where
  "bf_positions x bf s = map (\<lambda>h. h mod bfSize bf) (bfHashes x s)"

definition bf_Add :: "ext \<Rightarrow> string \<Rightarrow> BloomFilter \<Rightarrow> BloomFilter" where
  "bf_Add x s bf = bf\<lparr>bfSet := bf_positions x bf s @ bfSet bf\<rparr>"

definition Contains :: "ext \<Rightarrow> BloomFilter \<Rightarrow> string \<Rightarrow> bool option" where
  "Contains x bf s =
     (if bfSize bf = 0 then zeroContains x s
      else Some (list_all (\<lambda>p. p \<in> set (bfSet bf)) (bf_positions x bf s)))"

subsection \<open>cache.Cache\<close>

text \<open>
  Modelled from the spec: the cache package is not among the source files. It is a
  bounded LRU from key hash to serialized record, most recently used first; the bound
  counts entries.
\<close>

record Cache =
  capacity :: nat
  items :: "(u32 \<times> bytes) list"

definition NewCache :: "nat \<Rightarrow> Cache" where
  "NewCache n = \<lparr>capacity = n, items = []\<rparr>"

definition cache_Put :: "u32 \<Rightarrow> bytes \<Rightarrow> Cache \<Rightarrow> Cache" where
  "cache_Put k v c =
     c\<lparr>items := take (capacity c) ((k, v) # filter (\<lambda>kv. fst kv \<noteq> k) (items c))\<rparr>"

definition cache_Get :: "u32 \<Rightarrow> Cache \<Rightarrow> bytes option \<times> Cache" where
  "cache_Get k c =
     (case map_of (items c) k of
        None \<Rightarrow> (None, c)
      | Some v \<Rightarrow> (Some v, c\<lparr>items := (k, v) # filter (\<lambda>kv. fst kv \<noteq> k) (items c)\<rparr>))"

subsection \<open>engine.Storage: directories and their files\<close>

text \<open>
  A directory holds at most one file of each logical kind (\<^verbatim>\<open>engine.FileDesc\<close>). A
  commitlog or data file is its sequence of frames; a frame starts at the byte offset
  given by the lengths of the frames before it. The index file is the sequence of
  entries written to it. The bloom-filter file is \<open>Some None\<close> when it was created but
  holds no readable frame.
\<close>

record dir =
  fileCommitlog :: "bytes list option"
  fileData :: "bytes list option"
  fileIndex :: "Entry list option"
  fileBloomFilter :: "BloomFilter option option"

datatype fault =
    FailRenameFile | FailRenameDir | FailOpenFile | FailLoadIndex
  | FailCreateBloom | FailWriteBloom | FailSize | FailAppend

datatype error = IOError fault | NoSuchFile string

datatype logmsg = ErrFileCorrupted string | Infof string

text \<open>
  The world outside the process: the directories on disk, by path, and the lines
  written through \<^verbatim>\<open>slog\<close>. Which I/O calls the environment lets fail is a separate
  parameter \<open>flt\<close> of the operations.
\<close>

record world =
  files :: "string \<rightharpoonup> dir"
  slog :: "logmsg list"

definition emptyDir :: dir where
  "emptyDir = \<lparr>fileCommitlog = None, fileData = None, fileIndex = None, fileBloomFilter = None\<rparr>"

definition logw :: "logmsg \<Rightarrow> world \<Rightarrow> world" where
  "logw m w = w\<lparr>slog := slog w @ [m]\<rparr>"

definition fileLen :: "bytes list \<Rightarrow> int" where
  "fileLen fs = int (sum_list (map length fs))"

text \<open>The reader's \<^verbatim>\<open>Read(position)\<close>: the frame that starts at the position, if any.\<close>

fun readAt :: "bytes list \<Rightarrow> int \<Rightarrow> bytes option" where
  "readAt [] p = None"
| "readAt (f # fs) p =
     (if p = 0 then Some f
      else if p < int (length f) then None
      else readAt fs (p - int (length f)))"

definition DeleteDir :: "string \<Rightarrow> world \<Rightarrow> world" where
  "DeleteDir p w = w\<lparr>files := (files w)(p := None)\<rparr>"

subsection \<open>dataHolder\<close>

record dataHolder =
  path :: string
  summary :: Summary
  bloomfilter :: BloomFilter

text \<open>
  \<^verbatim>\<open>newDataHolder\<close>: seals the commitlog directory \<open>cPath\<close> into a data file directory
  named by the current time \<open>now\<close>. Every step that can fail returns at once, leaving
  the world as the earlier steps made it. A failed write of the bloom-filter bytes is
  not returned: the function answers with the dataHolder and no error.
\<close>

definition newDataHolder ::
  "ext \<Rightarrow> (fault \<Rightarrow> bool) \<Rightarrow> nat \<Rightarrow> string \<Rightarrow> world \<Rightarrow> (error + dataHolder) \<times> world" where
  "newDataHolder x flt now dbPath w =
    (let cPath = Join dbPath FolderCommitlog;
         newPath = Join dbPath (Itoa now)
     in case files w cPath of
          None \<Rightarrow> (Inl (NoSuchFile cPath), w)
        | Some d \<Rightarrow>
       (case fileCommitlog d of
          None \<Rightarrow> (Inl (NoSuchFile cPath), w)
        | Some frames \<Rightarrow>
        if flt FailRenameFile then (Inl (IOError FailRenameFile), w)
        else
          let d1 = d\<lparr>fileCommitlog := None, fileData := Some frames\<rparr>;
              w1 = w\<lparr>files := (files w)(cPath \<mapsto> d1)\<rparr>
          in if flt FailRenameDir \<or> files w1 newPath \<noteq> None
             then (Inl (IOError FailRenameDir), w1)
             else
               let w2 = w1\<lparr>files := (files w1)(cPath := None, newPath \<mapsto> d1)\<rparr>
               in if flt FailOpenFile then (Inl (IOError FailOpenFile), w2)
                  else
                    (case fileIndex d1 of
                       None \<Rightarrow> (Inl (NoSuchFile newPath), w2)
                     | Some es \<Rightarrow>
                       if flt FailLoadIndex then (Inl (IOError FailLoadIndex), w2)
                       else
                         let sm = LoadIndex_entries es;
                             table = GetTable sm;
                             bf = foldl (\<lambda>b v. bf_Add x (Itoa (unat (eKey v))) b)
                                    (NewBloomFilter x (Count sm)) table;
                             dh = \<lparr>path = newPath, summary = sm, bloomfilter = bf\<rparr>
                         in if flt FailCreateBloom then (Inl (IOError FailCreateBloom), w2)
                            else
                              let content = (if flt FailWriteBloom then None else Some bf);
                                  d3 = d1\<lparr>fileBloomFilter := Some content\<rparr>
                              in (Inr dh, w2\<lparr>files := (files w2)(newPath \<mapsto> d3)\<rparr>))))"

text \<open>
  \<^verbatim>\<open>openDataHolder\<close>: loads the index and the bloom filter of a data file directory.
  When the bloom-filter file opens but its frame cannot be read, the filter of the
  dataHolder stays the zero value and no error is returned.
\<close>

definition openDataHolder ::
  "(fault \<Rightarrow> bool) \<Rightarrow> string \<Rightarrow> world \<Rightarrow> error + dataHolder" where
  "openDataHolder flt p w =
    (case files w p of
       None \<Rightarrow> Inl (NoSuchFile p)
     | Some d \<Rightarrow>
       if flt FailOpenFile then Inl (IOError FailOpenFile)
       else
         (case fileIndex d of
            None \<Rightarrow> Inl (NoSuchFile p)
          | Some es \<Rightarrow>
            if flt FailLoadIndex then Inl (IOError FailLoadIndex)
            else
              (case fileBloomFilter d of
                 None \<Rightarrow> Inl (NoSuchFile p)
               | Some None \<Rightarrow>
                   Inr \<lparr>path = p, summary = LoadIndex_entries es, bloomfilter = zeroBloomFilter\<rparr>
               | Some (Some bf) \<Rightarrow>
                   Inr \<lparr>path = p, summary = LoadIndex_entries es, bloomfilter = bf\<rparr>)))"

text \<open>
  \<^verbatim>\<open>dataHolder.Get\<close>: reads the frame at a position of the data file. When the file
  cannot be opened or the frame cannot be read it logs \<^verbatim>\<open>ErrFileCorrupted\<close> and returns
  nil with a nil error.
\<close>

definition dataHolder_Get ::
  "dataHolder \<Rightarrow> int \<Rightarrow> world \<Rightarrow> (bytes option \<times> error option) \<times> world" where
  "dataHolder_Get d position w =
    (case (case files w (path d) of None \<Rightarrow> None | Some dr \<Rightarrow> fileData dr) of
       None \<Rightarrow> ((None, None), logw (ErrFileCorrupted (path d)) w)
     | Some frames \<Rightarrow>
       (case readAt frames position of
          None \<Rightarrow> ((None, None), logw (ErrFileCorrupted (path d)) w)
        | Some b \<Rightarrow> ((Some b, None), w)))"

subsection \<open>Commitlog\<close>

text \<open>
  Modelled from the spec: the Commitlog type (\<open>NewCommitLog\<close>, \<open>Size\<close>, \<open>Add\<close>, \<open>Get\<close>,
  \<open>LoadData\<close>) is not among the source files. It is an append-only file of kind
  commitlog in the directory \<open>commitlog\<close> of the database, with an index file written
  alongside and an in-memory summary. \<open>Add\<close> appends the frame at the current end of the
  file and records the entry; \<open>Get\<close> finds the entry of the key's hash and reads its
  frame; \<open>Size\<close> is the byte length of the file.
\<close>

record Commitlog =
  filepath :: string
  clSummary :: Summary

definition NewCommitLog :: "string \<Rightarrow> world \<Rightarrow> Commitlog \<times> world" where
  "NewCommitLog dbPath w =
    (let p = Join dbPath FolderCommitlog
     in (\<lparr>filepath = p, clSummary = []\<rparr>,
         (case files w p of
            None \<Rightarrow> w\<lparr>files := (files w)(p \<mapsto> emptyDir\<lparr>fileCommitlog := Some [], fileIndex := Some []\<rparr>)\<rparr>
          | Some d \<Rightarrow> w)))"

definition commitlog_file :: "Commitlog \<Rightarrow> world \<Rightarrow> bytes list option" where
  "commitlog_file c w = (case files w (filepath c) of None \<Rightarrow> None | Some d \<Rightarrow> fileCommitlog d)"

definition commitlog_Size :: "(fault \<Rightarrow> bool) \<Rightarrow> Commitlog \<Rightarrow> world \<Rightarrow> error + int" where
  "commitlog_Size flt c w =
    (if flt FailSize then Inl (IOError FailSize)
     else case commitlog_file c w of
            None \<Rightarrow> Inl (NoSuchFile (filepath c))
          | Some frames \<Rightarrow> Inr (fileLen frames))"

definition commitlog_Add ::
  "ext \<Rightarrow> (fault \<Rightarrow> bool) \<Rightarrow> string \<Rightarrow> status \<Rightarrow> bytes \<Rightarrow> Commitlog \<Rightarrow> world
     \<Rightarrow> error option \<times> Commitlog \<times> world" where
  "commitlog_Add x flt key st bs c w =
    (if flt FailAppend then (Some (IOError FailAppend), c, w)
     else case files w (filepath c) of
            None \<Rightarrow> (Some (NoSuchFile (filepath c)), c, w)
          | Some d \<Rightarrow>
            (case fileCommitlog d of
               None \<Rightarrow> (Some (NoSuchFile (filepath c)), c, w)
             | Some frames \<Rightarrow>
               let e = \<lparr>eKey = Hash32 x key, eStatus = st, eOffset = fileLen frames\<rparr>;
                   d' = d\<lparr>fileCommitlog := Some (frames @ [bs]),
                          fileIndex := Some ((case fileIndex d of None \<Rightarrow> [] | Some es \<Rightarrow> es) @ [e])\<rparr>
               in (None, c\<lparr>clSummary := summary_Add e (clSummary c)\<rparr>,
                   w\<lparr>files := (files w)(filepath c \<mapsto> d')\<rparr>)))"

definition commitlog_Get :: "ext \<Rightarrow> string \<Rightarrow> Commitlog \<Rightarrow> world \<Rightarrow> bytes option" where
  "commitlog_Get x key c w =
    (case LookUp (clSummary c) (Hash32 x key) of
       None \<Rightarrow> None
     | Some e \<Rightarrow>
       (case commitlog_file c w of
          None \<Rightarrow> None
        | Some frames \<Rightarrow> readAt frames (eOffset e)))"

section \<open>The database\<close>

record DatabaseDescriptor =
  Path :: string
  MaxDataLogSize :: int
  MaxCacheSize :: nat

record Database =
  Descriptor :: DatabaseDescriptor
  commitlog :: Commitlog
  dhList :: "dataHolder list"
  cache :: Cache

subsection \<open>InsertData\<close>

text \<open>
  \<^verbatim>\<open>InsertData\<close>: puts the serialized record in the cache, asks the commitlog for its
  size, seals the commitlog into a new dataHolder when the size plus the record's
  \<open>Size\<close> exceeds \<open>MaxDataLogSize\<close>, and appends the record to the commitlog. \<open>now\<close> is
  the clock reading \<^verbatim>\<open>time.Now().UnixNano()\<close> used to name a sealed directory.
\<close>

definition InsertData ::
  "ext \<Rightarrow> (fault \<Rightarrow> bool) \<Rightarrow> nat \<Rightarrow> DataDefinition \<Rightarrow> Database \<Rightarrow> world
     \<Rightarrow> error option \<times> Database \<times> world" where
  "InsertData x flt now df db w =
    (let hKey = Hash32 x (Key df);
         bs = ToByteStream x df;
         db1 = db\<lparr>cache := cache_Put hKey bs (cache db)\<rparr>
     in case commitlog_Size flt (commitlog db1) w of
          Inl err \<Rightarrow> (Some err, db1, w)
        | Inr sz \<Rightarrow>
          if sz + int (unat (Size df)) > MaxDataLogSize (Descriptor db1)
          then
            (case newDataHolder x flt now (Path (Descriptor db1)) w of
               (Inl err, w1) \<Rightarrow> (Some err, db1, w1)
             | (Inr ndh, w1) \<Rightarrow>
               (case NewCommitLog (Path (Descriptor db1)) w1 of
                  (cl, w2) \<Rightarrow>
                  (case commitlog_Add x flt (Key df) (Status df) bs cl w2 of
                     (err, cl', w3) \<Rightarrow>
                       (err, db1\<lparr>dhList := dhList db1 @ [ndh], commitlog := cl'\<rparr>, w3))))
          else
            (case commitlog_Add x flt (Key df) (Status df) bs (commitlog db1) w of
               (err, cl', w3) \<Rightarrow> (err, db1\<lparr>commitlog := cl'\<rparr>, w3)))"

subsection \<open>GetDataByKey\<close>

text \<open>
  The value \<^verbatim>\<open>GetDataByKey\<close> returns once it holds a byte stream: the deserialized
  record and true; when deserializing panics, the deferred \<^verbatim>\<open>recover\<close> makes the
  function return its zero results, nil and false.
\<close>

definition decoded :: "ext \<Rightarrow> bytes option \<Rightarrow> DataDefinition option \<times> bool" where
  "decoded x bs =
    (case NewDataDefinitionFromByteStream x bs of
       None \<Rightarrow> (None, False)
     | Some df \<Rightarrow> (Some df, True))"

text \<open>
  The loop over the data files, given in the order it visits them (newest first). A
  file is asked only when its bloom filter contains the key string; the first file
  whose summary has the key hash ends the loop, whatever reading its frame gives. A
  panic of \<open>Contains\<close> ends the function through the deferred \<^verbatim>\<open>recover\<close>, with nil
  and false.
\<close>

fun searchDataFiles ::
  "ext \<Rightarrow> u32 \<Rightarrow> string \<Rightarrow> dataHolder list \<Rightarrow> world \<Rightarrow> (DataDefinition option \<times> bool) \<times> world" where
  "searchDataFiles x hkey strKey [] w = ((None, False), w)"
| "searchDataFiles x hkey strKey (d # ds) w =
    (case Contains x (bloomfilter d) strKey of
       None \<Rightarrow> ((None, False), w)
     | Some True \<Rightarrow>
       (case LookUp (summary d) hkey of
          Some e \<Rightarrow>
            (case dataHolder_Get d (eOffset e) w of
               ((bs, Some err), w') \<Rightarrow> ((None, False), w')
             | ((bs, None), w') \<Rightarrow> (decoded x bs, w'))
        | None \<Rightarrow> searchDataFiles x hkey strKey ds w)
     | Some False \<Rightarrow> searchDataFiles x hkey strKey ds w)"

definition GetDataByKey ::
  "ext \<Rightarrow> string \<Rightarrow> Database \<Rightarrow> world \<Rightarrow> (DataDefinition option \<times> bool) \<times> Database \<times> world" where
  "GetDataByKey x key db w =
    (let hkey = Hash32 x key
     in case cache_Get hkey (cache db) of
          (Some c, ch) \<Rightarrow> (decoded x (Some c), db\<lparr>cache := ch\<rparr>, w)
        | (None, ch) \<Rightarrow>
          (case commitlog_Get x key (commitlog db) w of
             Some bs \<Rightarrow> (decoded x (Some bs), db\<lparr>cache := cache_Put hkey bs ch\<rparr>, w)
           | None \<Rightarrow>
             (case searchDataFiles x hkey (Itoa (unat hkey)) (rev (dhList db)) w of
                (r, w') \<Rightarrow> (r, db\<lparr>cache := ch\<rparr>, w'))))"

text \<open>
  The scan ends at a data file when its bloom filter contains the decimal string of the
  key hash and its summary has an entry for the hash, or when the filter panics. A data
  file whose filter does not contain the string is passed over even if its summary has
  the hash. \<open>fileAnswer\<close> is what the lookup returns when the scan ends at the file.
\<close>

definition endsScan :: "ext \<Rightarrow> u32 \<Rightarrow> dataHolder \<Rightarrow> bool" where
  "endsScan x hkey d =
     (case Contains x (bloomfilter d) (Itoa (unat hkey)) of
        None \<Rightarrow> True
      | Some True \<Rightarrow> LookUp (summary d) hkey \<noteq> None
      | Some False \<Rightarrow> False)"

definition fileAnswer ::
  "ext \<Rightarrow> u32 \<Rightarrow> dataHolder \<Rightarrow> world \<Rightarrow> DataDefinition option \<times> bool" where
  "fileAnswer x hkey d w =
     (case Contains x (bloomfilter d) (Itoa (unat hkey)) of
        None \<Rightarrow> (None, False)
      | Some True \<Rightarrow>
          (case LookUp (summary d) hkey of
             None \<Rightarrow> (None, False)
           | Some e \<Rightarrow> decoded x (fst (fst (dataHolder_Get d (eOffset e) w))))
      | Some False \<Rightarrow> (None, False))"

subsection \<open>LoadData\<close>

definition isDataFileName :: "string \<Rightarrow> bool" where
  "isDataFileName n = (length n = 19 \<and> list_all (\<lambda>c. c \<in> set ''0123456789'') n)"

text \<open>
  \<^verbatim>\<open>LoadData\<close>: opens every directory of the listing \<open>flist\<close> (the result of
  \<^verbatim>\<open>ioutil.ReadDir\<close>) whose name is 19 digits; an error of \<open>openDataHolder\<close> is fatal.
\<close>

fun LoadData :: "(fault \<Rightarrow> bool) \<Rightarrow> string list \<Rightarrow> Database \<Rightarrow> world \<Rightarrow> error + Database" where
  "LoadData flt [] db w = Inr db"
| "LoadData flt (v # vs) db w =
    (if isDataFileName v
     then (case openDataHolder flt (Join (Path (Descriptor db)) v) w of
             Inl err \<Rightarrow> Inl err
           | Inr dh \<Rightarrow> LoadData flt vs (db\<lparr>dhList := dhList db @ [dh]\<rparr>) w)
     else LoadData flt vs db w)"

section \<open>Compaction\<close>

record tombstoneMark =
  tmPath :: string
  tmEntry :: Entry

definition containsKey :: "u32 \<Rightarrow> tombstoneMark list \<Rightarrow> bool" where
  "containsKey key lst = list_ex (\<lambda>tb. eKey (tmEntry tb) = key) lst"

definition dhContainsAnyTombstone :: "dataHolder \<Rightarrow> tombstoneMark list \<Rightarrow> bool" where
  "dhContainsAnyTombstone dh lst =
     list_ex (\<lambda>v. LookUp (GetTable (summary dh)) (eKey (tmEntry v)) \<noteq> None) lst"

definition getTombstonesFromCommitlog :: "Database \<Rightarrow> tombstoneMark list" where
  "getTombstonesFromCommitlog db =
     map (\<lambda>v. \<lparr>tmPath = filepath (commitlog db), tmEntry = v\<rparr>)
       (filter (\<lambda>v. eStatus v = DataDefinitionRemoved) (GetTable (clSummary (commitlog db))))"

text \<open>
  \<^verbatim>\<open>geTombstonesFromDb\<close> starts one goroutine per dataHolder, handing each the address
  \<^verbatim>\<open>&dh\<close> of the one range variable, and appends their results as they arrive.
  Nothing orders a goroutine's read of the variable before the loop's next assignment
  to it, so goroutine \<open>i\<close> reads the dataHolder of its own iteration or of a later one,
  up to the last. Which one is the schedule \<open>sched\<close>, a parameter: goroutine \<open>i\<close> of
  \<open>n\<close> reads the dataHolder at index \<open>observed sched n i\<close>. The results are appended
  in list order; the callers only test whether a key hash occurs in the result.
\<close>

definition observed :: "(nat \<Rightarrow> nat) \<Rightarrow> nat \<Rightarrow> nat \<Rightarrow> nat" where
  "observed sched n i = min (n - 1) (max i (sched i))"

definition geTombstonesFromDb :: "(nat \<Rightarrow> nat) \<Rightarrow> Database \<Rightarrow> tombstoneMark list" where
  "geTombstonesFromDb sched db =
     concat (map (\<lambda>i. let dh = dhList db ! observed sched (length (dhList db)) i
                      in map (\<lambda>v. \<lparr>tmPath = path dh, tmEntry = v\<rparr>)
                           (filter (\<lambda>v. eStatus v = DataDefinitionRemoved) (GetTable (summary dh))))
                 [0..<length (dhList db)])"

datatype outcome = Finished | Panicked

text \<open>
  The inner loop of \<^verbatim>\<open>doCompaction\<close> over the index table of one dataHolder. Both the
  error of \<open>dh.Get\<close> and the error of \<open>commitlog.Add\<close> are dropped. A nil byte stream
  reaches \<open>NewDataDefinitionFromByteStream\<close> and, should that return, \<open>commitlog.Add\<close>,
  which dereferences it; no \<^verbatim>\<open>recover\<close> is installed here, so a panic ends the run
  (\<open>Inl\<close>, with the commitlog and world reached).
\<close>

fun rewriteSurvivors ::
  "ext \<Rightarrow> (fault \<Rightarrow> bool) \<Rightarrow> dataHolder \<Rightarrow> tombstoneMark list \<Rightarrow> Entry list \<Rightarrow> Commitlog \<Rightarrow> world
     \<Rightarrow> (Commitlog \<times> world) + (Commitlog \<times> world)" where
  "rewriteSurvivors x flt dh tombstones [] cl w = Inr (cl, w)"
| "rewriteSurvivors x flt dh tombstones (v # vs) cl w =
    (if containsKey (eKey v) tombstones
     then rewriteSurvivors x flt dh tombstones vs cl w
     else
       (case dataHolder_Get dh (eOffset v) w of
          ((bs, _), w1) \<Rightarrow>
            (case NewDataDefinitionFromByteStream x bs of
               None \<Rightarrow> Inl (cl, w1)
             | Some df \<Rightarrow>
               (case bs of
                  None \<Rightarrow> Inl (cl, w1)
                | Some b \<Rightarrow>
                  (case commitlog_Add x flt (Key df) (Status df) b cl w1 of
                     (_, cl', w2) \<Rightarrow>
                       rewriteSurvivors x flt dh tombstones vs cl'
                         (logw (Infof (''add:'' @ Key df)) w2))))))"

fun compactLoop ::
  "ext \<Rightarrow> (fault \<Rightarrow> bool) \<Rightarrow> tombstoneMark list \<Rightarrow> dataHolder list \<Rightarrow> Commitlog \<Rightarrow> world
     \<Rightarrow> outcome \<times> Commitlog \<times> world" where
  "compactLoop x flt tombstones [] cl w = (Finished, cl, w)"
| "compactLoop x flt tombstones (dh # rest) cl w =
    (if dhContainsAnyTombstone dh tombstones
     then
       (case rewriteSurvivors x flt dh tombstones (GetTable (summary dh)) cl w of
          Inl (cl', w') \<Rightarrow> (Panicked, cl', w')
        | Inr (cl', w') \<Rightarrow> compactLoop x flt tombstones rest cl' (DeleteDir (path dh) w'))
     else compactLoop x flt tombstones rest cl w)"

text \<open>
  \<^verbatim>\<open>doCompaction\<close>: collects the tombstones of the data files and of the commitlog, then
  runs the loop over the dataHolders. The cron registration, the notification goroutine
  and the completion channel are scheduling and are left out; so is the absence of the
  database lock, the run being taken as one step.
\<close>

definition doCompaction ::
  "ext \<Rightarrow> (nat \<Rightarrow> nat) \<Rightarrow> (fault \<Rightarrow> bool) \<Rightarrow> Database \<Rightarrow> world \<Rightarrow> outcome \<times> Database \<times> world" where
  "doCompaction x sched flt db w =
    (let tombstones = geTombstonesFromDb sched db @ getTombstonesFromCommitlog db
     in case compactLoop x flt tombstones (dhList db) (commitlog db) w of
          (oc, cl, w') \<Rightarrow> (oc, db\<lparr>commitlog := cl\<rparr>, w'))"

subsection \<open>The tombstones as the specification describes them\<close>

text \<open>
  The specification's account of the tombstones of a run, for comparison with
  \<open>doCompaction\<close>: the tombstones are the REMOVED entries of all data files and of the
  commitlog; a data file is affected when its summary has an entry whose key hash is
  tombstoned.
\<close>

definition tombstoneEntries :: "Database \<Rightarrow> Entry list" where
  "tombstoneEntries db =
     filter (\<lambda>e. eStatus e = DataDefinitionRemoved)
       (concat (map summary (dhList db)) @ clSummary (commitlog db))"

definition tombstoned :: "Database \<Rightarrow> u32 \<Rightarrow> bool" where
  "tombstoned db k = list_ex (\<lambda>e. eKey e = k) (tombstoneEntries db)"

definition affected :: "Database \<Rightarrow> dataHolder \<Rightarrow> bool" where
  "affected db dh = list_ex (\<lambda>e. tombstoned db (eKey e)) (summary dh)"

subsection \<open>Where a tombstone is\<close>

text \<open>
  Conditions on a state used to follow a tombstone with frame \<open>bs\<close> of key hash \<open>h\<close>.
  The cache agrees with the tombstone when it has no entry of the key hash or has the
  frame; the commitlog holds it when its summary has a REMOVED entry of the key hash at
  whose offset the commitlog file has the frame. The data files agree with their
  indexes when every frame that an entry of a summary points to and that can be read
  and deserialized is a record whose key has the key hash of the entry.
\<close>

definition cacheAgrees :: "u32 \<Rightarrow> bytes \<Rightarrow> Cache \<Rightarrow> bool" where
  "cacheAgrees h bs c = (case fst (cache_Get h c) of None \<Rightarrow> True | Some v \<Rightarrow> v = bs)"

definition logHolds :: "u32 \<Rightarrow> bytes \<Rightarrow> Database \<Rightarrow> world \<Rightarrow> bool" where
  "logHolds h bs db w =
     (case LookUp (clSummary (commitlog db)) h of
        None \<Rightarrow> False
      | Some e \<Rightarrow>
          eStatus e = DataDefinitionRemoved \<and>
          (case commitlog_file (commitlog db) w of
             None \<Rightarrow> False
           | Some frames \<Rightarrow> readAt frames (eOffset e) = Some bs))"

definition tombInLog :: "u32 \<Rightarrow> bytes \<Rightarrow> Database \<Rightarrow> world \<Rightarrow> bool" where
  "tombInLog h bs db w = (cacheAgrees h bs (cache db) \<and> logHolds h bs db w)"

definition entryAgrees :: "ext \<Rightarrow> world \<Rightarrow> dataHolder \<Rightarrow> Entry \<Rightarrow> bool" where
  "entryAgrees x w dh v =
     (case fst (fst (dataHolder_Get dh (eOffset v) w)) of
        None \<Rightarrow> True
      | Some b \<Rightarrow>
          (case NewDataDefinitionFromByteStream x (Some b) of
             None \<Rightarrow> True
           | Some df \<Rightarrow> Hash32 x (Key df) = eKey v))"

definition consistent :: "ext \<Rightarrow> Database \<Rightarrow> world \<Rightarrow> bool" where
  "consistent x db w = list_all (\<lambda>dh. list_all (entryAgrees x w dh) (summary dh)) (dhList db)"

definition noEmptyFrame :: "Commitlog \<Rightarrow> world \<Rightarrow> bool" where
  "noEmptyFrame c w = (case commitlog_file c w of None \<Rightarrow> True | Some frames \<Rightarrow> [] \<notin> set frames)"

section \<open>An example database\<close>

text \<open>
  A small instance of the parameters, used to run the operations on concrete inputs:
  keys are strings of the letter f, hashed by their length; a record is serialized as
  a status byte, the key length and the payload; deserializing a nil stream panics, a
  stream too short to hold the header gives the empty record; the zero bloom filter
  contains nothing.
\<close>

definition demo_ext :: ext where
  "demo_ext =
    \<lparr>Hash32 = (\<lambda>s. of_nat (length s)),
     ToByteStream =
       (\<lambda>df. (if Status df = DataDefinitionRemoved then 1 else 0) # of_nat (length (Key df)) # Buf df),
     NewDataDefinitionFromByteStream =
       (\<lambda>bs. case bs of
                None \<Rightarrow> None
              | Some (s # n # p) \<Rightarrow>
                  Some \<lparr>Key = replicate (unat n) (CHR ''f''),
                        Status = (if s = 1 then DataDefinitionRemoved else DataDefinitionActive),
                        Size = of_nat (length p + 2), Buf = p\<rparr>
              | Some _ \<Rightarrow>
                  Some \<lparr>Key = [], Status = DataDefinitionActive, Size = 0, Buf = []\<rparr>),
     bfHashes = (\<lambda>s. [length s, 3 * length s + 1]),
     bfBits = (\<lambda>n. 8 * n + 8),
     zeroContains = (\<lambda>s. Some False)\<rparr>"

definition noFault :: "fault \<Rightarrow> bool" where
  "noFault f = False"

definition onlyFault :: "fault \<Rightarrow> fault \<Rightarrow> bool" where
  "onlyFault g f = (f = g)"

definition rec_f :: DataDefinition where
  "rec_f = \<lparr>Key = ''f'', Status = DataDefinitionActive, Size = 3, Buf = [7]\<rparr>"

definition rec_f_removed :: DataDefinition where
  "rec_f_removed = \<lparr>Key = ''f'', Status = DataDefinitionRemoved, Size = 2, Buf = []\<rparr>"

definition rec_ff :: DataDefinition where
  "rec_ff = \<lparr>Key = ''ff'', Status = DataDefinitionActive, Size = 3, Buf = [9]\<rparr>"

definition demo_desc :: DatabaseDescriptor where
  "demo_desc = \<lparr>Path = ''db'', MaxDataLogSize = 6, MaxCacheSize = 4\<rparr>"

definition entry_f :: Entry where
  "entry_f = \<lparr>eKey = 1, eStatus = DataDefinitionActive, eOffset = 0\<rparr>"

definition entry_ff :: Entry where
  "entry_ff = \<lparr>eKey = 2, eStatus = DataDefinitionActive, eOffset = 3\<rparr>"

definition entry_f_removed :: Entry where
  "entry_f_removed = \<lparr>eKey = 1, eStatus = DataDefinitionRemoved, eOffset = 0\<rparr>"

definition demo_bloom :: BloomFilter where
  "demo_bloom = \<lparr>bfSize = 24, bfSet = [1, 4, 1, 4]\<rparr>"

text \<open>A sealed data file directory holding the records f and ff, and its dataHolder.\<close>

definition sealedDir :: dir where
  "sealedDir =
    \<lparr>fileCommitlog = None, fileData = Some [[0, 1, 7], [0, 2, 9]],
     fileIndex = Some [entry_f, entry_ff], fileBloomFilter = Some (Some demo_bloom)\<rparr>"

definition sealedDh :: "string \<Rightarrow> dataHolder" where
  "sealedDh p = \<lparr>path = p, summary = [entry_f, entry_ff], bloomfilter = demo_bloom\<rparr>"

text \<open>A commitlog directory holding the given frames and index entries.\<close>

definition logDir :: "bytes list \<Rightarrow> Entry list \<Rightarrow> dir" where
  "logDir frames es =
    \<lparr>fileCommitlog = Some frames, fileData = None, fileIndex = Some es, fileBloomFilter = None\<rparr>"

definition demo_cl :: "Summary \<Rightarrow> Commitlog" where
  "demo_cl sm = \<lparr>filepath = ''db/commitlog'', clSummary = sm\<rparr>"

text \<open>
  The state after a rollover has sealed f and ff into the directory \<open>db/15\<close> and the
  tombstone of f has been appended to the fresh commitlog.
\<close>

definition world_tomb :: world where
  "world_tomb =
    \<lparr>files = [''db/15'' \<mapsto> sealedDir, ''db/commitlog'' \<mapsto> logDir [[1, 1]] [entry_f_removed]],
     slog = []\<rparr>"

definition db_tomb :: "nat \<Rightarrow> Database" where
  "db_tomb cap =
    \<lparr>Descriptor = demo_desc, commitlog = demo_cl [entry_f_removed],
     dhList = [sealedDh ''db/15''],
     cache = \<lparr>capacity = cap, items = take cap [(1, [1, 1]), (2, [0, 2, 9])]\<rparr>\<rparr>"

text \<open>
  Two sealed data files with the same records, the newer one (\<open>db/16\<close>) with its data
  file truncated to nothing; the commitlog and the cache are empty.
\<close>

definition world_corrupt :: world where
  "world_corrupt =
    \<lparr>files = [''db/15'' \<mapsto> sealedDir, ''db/16'' \<mapsto> sealedDir\<lparr>fileData := Some []\<rparr>,
              ''db/commitlog'' \<mapsto> logDir [] []],
     slog = []\<rparr>"

definition db_corrupt :: Database where
  "db_corrupt =
    \<lparr>Descriptor = demo_desc, commitlog = demo_cl [],
     dhList = [sealedDh ''db/15'', sealedDh ''db/16''], cache = NewCache 4\<rparr>"

text \<open>
  The state before that rollover: f and ff in a commitlog of six bytes, the limit of
  the descriptor; and the state one insert earlier, with f alone.
\<close>

definition world_full :: world where
  "world_full =
    \<lparr>files = [''db/commitlog'' \<mapsto> logDir [[0, 1, 7], [0, 2, 9]] [entry_f, entry_ff]], slog = []\<rparr>"

definition db_full :: Database where
  "db_full =
    \<lparr>Descriptor = demo_desc, commitlog = demo_cl [entry_f, entry_ff], dhList = [],
     cache = \<lparr>capacity = 4, items = [(2, [0, 2, 9]), (1, [0, 1, 7])]\<rparr>\<rparr>"

definition world_f :: world where
  "world_f = \<lparr>files = [''db/commitlog'' \<mapsto> logDir [[0, 1, 7]] [entry_f]], slog = []\<rparr>"

definition db_f :: Database where
  "db_f =
    \<lparr>Descriptor = demo_desc, commitlog = demo_cl [entry_f], dhList = [],
     cache = \<lparr>capacity = 4, items = [(1, [0, 1, 7])]\<rparr>\<rparr>"

text \<open>A record whose frame of nine bytes is longer than the limit of six.\<close>

definition rec_big :: DataDefinition where
  "rec_big = \<lparr>Key = ''ff'', Status = DataDefinitionActive, Size = 9, Buf = [1, 2, 3, 4, 5, 6, 7]\<rparr>"

text \<open>A record whose \<open>Size\<close> field is 0 while its frame has three bytes.\<close>

definition rec_unsized :: DataDefinition where
  "rec_unsized = \<lparr>Key = ''ff'', Status = DataDefinitionActive, Size = 0, Buf = [9]\<rparr>"

text \<open>
  The state after a further record fff of four bytes has been inserted behind the
  tombstone: the commitlog is six bytes long, at the limit.
\<close>

definition rec_fff :: DataDefinition where
  "rec_fff = \<lparr>Key = ''fff'', Status = DataDefinitionActive, Size = 4, Buf = [5, 6]\<rparr>"

definition entry_fff :: Entry where
  "entry_fff = \<lparr>eKey = 3, eStatus = DataDefinitionActive, eOffset = 2\<rparr>"

definition world_limit :: world where
  "world_limit =
    \<lparr>files = [''db/15'' \<mapsto> sealedDir,
              ''db/commitlog'' \<mapsto> logDir [[1, 1], [0, 3, 5, 6]] [entry_f_removed, entry_fff]],
     slog = []\<rparr>"

definition db_limit :: Database where
  "db_limit =
    \<lparr>Descriptor = demo_desc, commitlog = demo_cl [entry_f_removed, entry_fff],
     dhList = [sealedDh ''db/15''],
     cache = \<lparr>capacity = 4, items = [(3, [0, 3, 5, 6]), (1, [1, 1]), (2, [0, 2, 9])]\<rparr>\<rparr>"

text \<open>
  Two schedules of the goroutines of \<open>geTombstonesFromDb\<close>: each reads the dataHolder
  of its own iteration; or all of \<open>n\<close> run after the loop has ended and read the last.
\<close>

definition ownSched :: "nat \<Rightarrow> nat" where
  "ownSched i = i"

definition lateSched :: "nat \<Rightarrow> nat \<Rightarrow> nat" where
  "lateSched n i = n"

text \<open>
  A database with two data files and an empty commitlog and cache: the older file
  \<open>db/15\<close> is the sealed commitlog of the state above (the tombstone of f, and fff), the
  newer file \<open>db/16\<close> holds ff alone.
\<close>

definition tombDir :: dir where
  "tombDir =
    \<lparr>fileCommitlog = None, fileData = Some [[1, 1], [0, 3, 5, 6]],
     fileIndex = Some [entry_f_removed, entry_fff], fileBloomFilter = Some (Some demo_bloom)\<rparr>"

definition tombDh :: "string \<Rightarrow> dataHolder" where
  "tombDh p = \<lparr>path = p, summary = [entry_f_removed, entry_fff], bloomfilter = demo_bloom\<rparr>"

definition entry_ff0 :: Entry where
  "entry_ff0 = \<lparr>eKey = 2, eStatus = DataDefinitionActive, eOffset = 0\<rparr>"

definition ffDir :: dir where
  "ffDir =
    \<lparr>fileCommitlog = None, fileData = Some [[0, 2, 9]], fileIndex = Some [entry_ff0],
     fileBloomFilter = Some (Some \<lparr>bfSize = 16, bfSet = [1, 4]\<rparr>)\<rparr>"

definition ffDh :: dataHolder where
  "ffDh = \<lparr>path = ''db/16'', summary = [entry_ff0], bloomfilter = \<lparr>bfSize = 16, bfSet = [1, 4]\<rparr>\<rparr>"

definition world_two :: world where
  "world_two =
    \<lparr>files = [''db/15'' \<mapsto> tombDir, ''db/16'' \<mapsto> ffDir, ''db/commitlog'' \<mapsto> logDir [] []],
     slog = []\<rparr>"

definition db_two :: Database where
  "db_two =
    \<lparr>Descriptor = demo_desc, commitlog = demo_cl [], dhList = [tombDh ''db/15'', ffDh], cache = NewCache 4\<rparr>"

text \<open>
  A database with three data files and an empty commitlog and cache: the oldest file
  \<open>db/15\<close> holds f and ff, both ACTIVE; \<open>db/16\<close> holds the tombstone of f, and fff; the
  newest file \<open>db/17\<close> holds the tombstone of ff alone.
\<close>

definition entry_ff_removed :: Entry where
  "entry_ff_removed = \<lparr>eKey = 2, eStatus = DataDefinitionRemoved, eOffset = 0\<rparr>"

definition ffTombDir :: dir where
  "ffTombDir =
    \<lparr>fileCommitlog = None, fileData = Some [[1, 2]], fileIndex = Some [entry_ff_removed],
     fileBloomFilter = Some (Some \<lparr>bfSize = 16, bfSet = [1, 4]\<rparr>)\<rparr>"

definition ffTombDh :: dataHolder where
  "ffTombDh =
    \<lparr>path = ''db/17'', summary = [entry_ff_removed], bloomfilter = \<lparr>bfSize = 16, bfSet = [1, 4]\<rparr>\<rparr>"

definition world_three :: world where
  "world_three =
    \<lparr>files = [''db/15'' \<mapsto> sealedDir, ''db/16'' \<mapsto> tombDir, ''db/17'' \<mapsto> ffTombDir,
              ''db/commitlog'' \<mapsto> logDir [] []],
     slog = []\<rparr>"

definition db_three :: Database where
  "db_three =
    \<lparr>Descriptor = demo_desc, commitlog = demo_cl [],
     dhList = [sealedDh ''db/15'', tombDh ''db/16'', ffTombDh], cache = NewCache 4\<rparr>"

section \<open>Evaluation of the example\<close>

lemma digit_char_simps:
  "digit_char 0 = CHR ''0''" "digit_char 1 = CHR ''1''" "digit_char 2 = CHR ''2''"
  "digit_char 3 = CHR ''3''" "digit_char 4 = CHR ''4''" "digit_char 5 = CHR ''5''"
  "digit_char 6 = CHR ''6''" "digit_char 7 = CHR ''7''" "digit_char 8 = CHR ''8''"
  "digit_char 9 = CHR ''9''" "digit_char (Suc 0) = CHR ''1''"
  by code_simp+

lemma Itoa_small:
  "Itoa 1 = ''1''" "Itoa (Suc 0) = ''1''" "Itoa 2 = ''2''" "Itoa 3 = ''3''" "Itoa 15 = ''15''"
  "Itoa 16 = ''16''" "Itoa 17 = ''17''"
  by (simp_all add: Itoa.simps digit_char_simps)

lemma replicate_2: "replicate 2 c = [c, c]"
  by (simp add: numeral_2_eq_2)

lemma upt_small: "[0..<1] = [0]" "[0..<Suc 0] = [0]" "[0..<2] = [0, 1]" "[0..<Suc (Suc 0)] = [0, 1]"
  by (simp_all add: upt_rec)

lemma observed_single [simp]: "observed sched (Suc 0) 0 = 0"
  by (simp add: observed_def)

lemmas demo_defs = replicate_2 upt_small demo_ext_def noFault_def onlyFault_def rec_f_def
  rec_f_removed_def rec_ff_def
  demo_desc_def entry_f_def entry_ff_def entry_f_removed_def demo_bloom_def sealedDir_def
  sealedDh_def logDir_def demo_cl_def world_tomb_def db_tomb_def world_corrupt_def db_corrupt_def
  world_full_def db_full_def world_f_def db_f_def rec_big_def rec_fff_def entry_fff_def
  world_limit_def db_limit_def ownSched_def lateSched_def tombDir_def tombDh_def entry_ff0_def
  ffDir_def ffDh_def world_two_def db_two_def rec_unsized_def
  entry_ff_removed_def ffTombDir_def ffTombDh_def world_three_def db_three_def

lemmas op_defs = InsertData_def GetDataByKey_def doCompaction_def newDataHolder_def
  openDataHolder_def dataHolder_Get_def commitlog_Add_def commitlog_Get_def commitlog_Size_def
  commitlog_file_def NewCommitLog_def cache_Put_def cache_Get_def decoded_def Contains_def
  bf_positions_def bf_Add_def NewBloomFilter_def LookUp_def summary_Add_def GetTable_def Count_def
  LoadIndex_entries_def containsKey_def dhContainsAnyTombstone_def getTombstonesFromCommitlog_def
  geTombstonesFromDb_def observed_def DeleteDir_def logw_def fileLen_def Join_def
  FolderCommitlog_def emptyDir_def zeroBloomFilter_def NewCache_def endsScan_def fileAnswer_def
  Let_def

section \<open>Reading a data file\<close>

lemma dataHolder_Get_cases:
  "dataHolder_Get d pos w = ((None, None), logw (ErrFileCorrupted (path d)) w) \<or>
   (\<exists>b. dataHolder_Get d pos w = ((Some b, None), w))"
proof (cases "files w (path d)")
  case None
  then show ?thesis by (simp add: dataHolder_Get_def)
next
  case (Some dr)
  show ?thesis
  proof (cases "fileData dr")
    case None
    with Some show ?thesis by (simp add: dataHolder_Get_def)
  next
    case (Some frames)
    with \<open>files w (path d) = Some dr\<close> show ?thesis
      by (cases "readAt frames pos") (simp_all add: dataHolder_Get_def)
  qed
qed

lemma dataHolder_Get_None:
  "fst (fst (dataHolder_Get d pos w)) = None \<Longrightarrow>
     dataHolder_Get d pos w = ((None, None), logw (ErrFileCorrupted (path d)) w)"
  using dataHolder_Get_cases [of d pos w] by auto


section \<open>The scan of the data files\<close>

lemma searchDataFiles_step:
  "searchDataFiles x hkey (Itoa (unat hkey)) (d # ds) w =
     (if endsScan x hkey d
      then (case Contains x (bloomfilter d) (Itoa (unat hkey)) of
              None \<Rightarrow> ((None, False), w)
            | Some b \<Rightarrow>
              (case LookUp (summary d) hkey of
                 None \<Rightarrow> ((None, False), w)
               | Some e \<Rightarrow>
                   (decoded x (fst (fst (dataHolder_Get d (eOffset e) w))),
                    snd (dataHolder_Get d (eOffset e) w))))
      else searchDataFiles x hkey (Itoa (unat hkey)) ds w)"
proof (cases "Contains x (bloomfilter d) (Itoa (unat hkey))")
  case None
  then show ?thesis by (simp add: endsScan_def)
next
  case (Some b)
  show ?thesis
  proof (cases b)
    case False
    with Some show ?thesis by (simp add: endsScan_def)
  next
    case True
    show ?thesis
    proof (cases "LookUp (summary d) hkey")
      case None
      with Some True show ?thesis by (simp add: endsScan_def)
    next
      case (Some e)
      with \<open>Contains x (bloomfilter d) (Itoa (unat hkey)) = Some b\<close> True
        dataHolder_Get_cases [of d "eOffset e" w]
      show ?thesis by (auto simp: endsScan_def)
    qed
  qed
qed

lemma searchDataFiles_skip:
  "\<forall>p\<in>set pre. \<not> endsScan x hkey p \<Longrightarrow>
     searchDataFiles x hkey (Itoa (unat hkey)) (pre @ ds) w =
       searchDataFiles x hkey (Itoa (unat hkey)) ds w"
proof (induction pre)
  case Nil
  show ?case by simp
next
  case (Cons p pre)
  then show ?case
    by (simp add: searchDataFiles_step del: searchDataFiles.simps)
qed

lemma fst_searchDataFiles_ends:
  "endsScan x hkey d \<Longrightarrow>
     fst (searchDataFiles x hkey (Itoa (unat hkey)) (d # ds) w) = fileAnswer x hkey d w"
  by (simp add: searchDataFiles_step fileAnswer_def endsScan_def
        split: option.splits bool.splits del: searchDataFiles.simps)

lemma searchDataFiles_find:
  "fst (searchDataFiles x hkey (Itoa (unat hkey)) ds w) =
     (case find (endsScan x hkey) ds of
        None \<Rightarrow> (None, False)
      | Some d \<Rightarrow> fileAnswer x hkey d w)"
proof (induction ds)
  case Nil
  show ?case by simp
next
  case (Cons d ds)
  show ?case
  proof (cases "endsScan x hkey d")
    case True
    then show ?thesis
      by (simp add: fst_searchDataFiles_ends del: searchDataFiles.simps)
  next
    case False
    with Cons show ?thesis
      by (simp add: searchDataFiles_step del: searchDataFiles.simps)
  qed
qed

lemma find_SomeD: "find P xs = Some y \<Longrightarrow> y \<in> set xs \<and> P y"
  by (induction xs) (auto split: if_splits)

lemma LookUp_Some_mem: "LookUp s k = Some e \<Longrightarrow> e \<in> set s"
  by (auto simp: LookUp_def find_Some_iff)

lemma decoded_snd: "snd (decoded x bs) = (NewDataDefinitionFromByteStream x bs \<noteq> None)"
  by (simp add: decoded_def split: option.splits)

section \<open>The lookup\<close>

lemma GetDataByKey_fst:
  "fst (GetDataByKey x key db w) =
     (case fst (cache_Get (Hash32 x key) (cache db)) of
        Some c \<Rightarrow> decoded x (Some c)
      | None \<Rightarrow>
        (case commitlog_Get x key (commitlog db) w of
           Some bs \<Rightarrow> decoded x (Some bs)
         | None \<Rightarrow>
           (case find (endsScan x (Hash32 x key)) (rev (dhList db)) of
              None \<Rightarrow> (None, False)
            | Some d \<Rightarrow> fileAnswer x (Hash32 x key) d w)))"
proof -
  let ?h = "Hash32 x key"
  obtain c ch where cg: "cache_Get ?h (cache db) = (c, ch)"
    by (cases "cache_Get ?h (cache db)")
  obtain r w' where sd: "searchDataFiles x ?h (Itoa (unat ?h)) (rev (dhList db)) w = (r, w')"
    by (cases "searchDataFiles x ?h (Itoa (unat ?h)) (rev (dhList db)) w")
  have r: "r = (case find (endsScan x ?h) (rev (dhList db)) of
              None \<Rightarrow> (None, False)
            | Some d \<Rightarrow> fileAnswer x ?h d w)"
    using searchDataFiles_find [of x ?h "rev (dhList db)" w] sd
    by simp
  show ?thesis
  proof (cases c)
    case (Some cv)
    with cg show ?thesis by (simp add: GetDataByKey_def Let_def)
  next
    case None
    with cg sd r show ?thesis
      by (cases "commitlog_Get x key (commitlog db) w") (simp_all add: GetDataByKey_def Let_def)
  qed
qed




text \<open>
  C7, as the code has it. When the newest data file at which the scan ends cannot
  deliver the frame, the read logs \<^verbatim>\<open>ErrFileCorrupted\<close> with the path of that file and
  Get returns at once with what deserializing the nil stream gives, which is nil and
  false ("not found") when that call panics; the older data files are not consulted,
  the database is unchanged and nothing is raised.
\<close>

theorem corrupted_read_ends_lookup:
  assumes cmiss: "fst (cache_Get (Hash32 x key) (cache db)) = None"
    and lmiss: "commitlog_Get x key (commitlog db) w = None"
    and lst: "dhList db = older @ d # newer"
    and newer: "\<forall>p\<in>set newer. \<not> endsScan x (Hash32 x key) p"
    and hit: "Contains x (bloomfilter d) (Itoa (unat (Hash32 x key))) = Some True"
    and ent: "LookUp (summary d) (Hash32 x key) = Some e"
    and bad: "fst (fst (dataHolder_Get d (eOffset e) w)) = None"
  shows "GetDataByKey x key db w =
           (decoded x None, db, logw (ErrFileCorrupted (path d)) w) \<and>
         (NewDataDefinitionFromByteStream x None = None \<longrightarrow>
            fst (GetDataByKey x key db w) = (None, False))"
proof -
  let ?h = "Hash32 x key"
  from cmiss have cg: "cache_Get ?h (cache db) = (None, cache db)"
    by (auto simp: cache_Get_def split: option.splits)
  have rv: "rev (dhList db) = rev newer @ d # rev older"
    by (simp add: lst)
  from newer have sk: "\<forall>p\<in>set (rev newer). \<not> endsScan x ?h p"
    by simp
  from hit ent have en: "endsScan x ?h d"
    by (simp add: endsScan_def)
  have "searchDataFiles x ?h (Itoa (unat ?h)) (rev (dhList db)) w =
          (decoded x None, logw (ErrFileCorrupted (path d)) w)"
    unfolding rv searchDataFiles_skip [OF sk]
    using en hit ent dataHolder_Get_None [OF bad]
    by (simp add: searchDataFiles_step del: searchDataFiles.simps)
  with cg lmiss have a: "GetDataByKey x key db w =
           (decoded x None, db, logw (ErrFileCorrupted (path d)) w)"
    by (simp add: GetDataByKey_def Let_def)
  then show ?thesis
    by (simp add: decoded_def)
qed

theorem corrupted_read_ends_lookup_witness:
  "GetDataByKey demo_ext ''f'' db_corrupt world_corrupt =
     ((None, False), db_corrupt, logw (ErrFileCorrupted ''db/16'') world_corrupt)"
proof -
  have cmiss: "fst (cache_Get (Hash32 demo_ext ''f'') (cache db_corrupt)) = None"
    by (simp add: demo_defs op_defs)
  have lmiss: "commitlog_Get demo_ext ''f'' (commitlog db_corrupt) world_corrupt = None"
    by (simp add: demo_defs op_defs)
  have lst: "dhList db_corrupt = [sealedDh ''db/15''] @ sealedDh ''db/16'' # []"
    by (simp add: db_corrupt_def)
  have newer: "\<forall>p\<in>set []. \<not> endsScan demo_ext (Hash32 demo_ext ''f'') p"
    by simp
  have hit: "Contains demo_ext (bloomfilter (sealedDh ''db/16''))
               (Itoa (unat (Hash32 demo_ext ''f''))) = Some True"
    by (simp add: demo_defs op_defs Itoa_small)
  have ent: "LookUp (summary (sealedDh ''db/16'')) (Hash32 demo_ext ''f'') = Some entry_f"
    by (simp add: demo_defs op_defs)
  have bad: "fst (fst (dataHolder_Get (sealedDh ''db/16'') (eOffset entry_f) world_corrupt)) = None"
    by (simp add: demo_defs op_defs)
  have nil: "NewDataDefinitionFromByteStream demo_ext None = None"
    by (simp add: demo_ext_def)
  from corrupted_read_ends_lookup [OF cmiss lmiss lst newer hit ent bad] nil
  show ?thesis
    by (simp add: decoded_def sealedDh_def)
qed

text \<open>
  C7 as stated fails: with the newer of two data files truncated, Get of a key that the
  older file holds intact answers "not found"; on the older file alone it finds the
  record.
\<close>

theorem scan_continues_counterexample:
  "fst (GetDataByKey demo_ext ''f'' db_corrupt world_corrupt) = (None, False) \<and>
   fst (GetDataByKey demo_ext ''f'' (db_corrupt\<lparr>dhList := [sealedDh ''db/15'']\<rparr>) world_corrupt) =
     (Some rec_f, True)"
  by (simp add: demo_defs op_defs Itoa_small)



section \<open>The example states are reached by Insert\<close>



lemma insert_fff_gives_limit:
  "InsertData demo_ext noFault 16 rec_fff (db_tomb 4) world_tomb = (None, db_limit, world_limit)"
  by (simp add: demo_defs op_defs Itoa_small)

section \<open>Bloom filter\<close>

lemma bfSize_bf_Add [simp]: "bfSize (bf_Add x s bf) = bfSize bf"
  by (simp add: bf_Add_def)

lemma bf_positions_bf_Add [simp]: "bf_positions x (bf_Add x s bf) t = bf_positions x bf t"
  by (simp add: bf_positions_def)

lemma Contains_bf_Add_self: "bfSize bf \<noteq> 0 \<Longrightarrow> Contains x (bf_Add x s bf) s = Some True"
  by (simp add: Contains_def list_all_iff) (simp add: bf_Add_def)

lemma Contains_bf_Add_mono:
  "Contains x bf t = Some True \<Longrightarrow> Contains x (bf_Add x s bf) t = Some True"
  by (simp add: Contains_def list_all_iff split: if_splits) (simp add: bf_Add_def)

lemma bfSize_foldl_bf_Add [simp]:
  "bfSize (foldl (\<lambda>b v. bf_Add x (f v) b) bf vs) = bfSize bf"
  by (induction vs arbitrary: bf) simp_all

lemma Contains_foldl_mono:
  "Contains x bf t = Some True \<Longrightarrow>
     Contains x (foldl (\<lambda>b v. bf_Add x (f v) b) bf vs) t = Some True"
  by (induction vs arbitrary: bf) (simp_all add: Contains_bf_Add_mono)

lemma Contains_foldl_bf_Add:
  "bfSize bf \<noteq> 0 \<Longrightarrow> v \<in> set vs \<Longrightarrow>
     Contains x (foldl (\<lambda>b v. bf_Add x (f v) b) bf vs) (f v) = Some True"
proof (induction vs arbitrary: bf)
  case Nil
  then show ?case by simp
next
  case (Cons a vs)
  show ?case
  proof (cases "v = a")
    case True
    with Cons.prems show ?thesis
      by (simp add: Contains_foldl_mono Contains_bf_Add_self)
  next
    case False
    with Cons show ?thesis by simp
  qed
qed

section \<open>Sealing the commitlog\<close>

lemma last_Itoa: "last (Itoa n) = digit_char (n mod 10)"
  by (subst Itoa.simps) simp

lemma digit_char_not_g: "digit_char (n mod 10) \<noteq> CHR ''g''"
proof -
  have "n mod 10 < 10" by simp
  then have "n mod 10 \<in> {0, 1, 2, 3, 4, 5, 6, 7, 8, 9}" by simp arith
  then show ?thesis
    by (auto simp: digit_char_simps)
qed

lemma Itoa_not_commitlog: "Join p (Itoa n) \<noteq> Join p FolderCommitlog"
proof
  assume "Join p (Itoa n) = Join p FolderCommitlog"
  then have "Itoa n = FolderCommitlog" by (simp add: Join_def)
  then have "last (Itoa n) = last FolderCommitlog" by simp
  then show False
    using digit_char_not_g [of n] by (simp add: last_Itoa FolderCommitlog_def)
qed

text \<open>What a successful \<open>newDataHolder\<close> has done.\<close>

lemma newDataHolder_Inr:
  assumes "newDataHolder x flt now dbPath w = (Inr dh, w')"
  shows "\<exists>d frames es.
           files w (Join dbPath FolderCommitlog) = Some d \<and>
           fileCommitlog d = Some frames \<and> fileIndex d = Some es \<and>
           files w (Join dbPath (Itoa now)) = None \<and>
           path dh = Join dbPath (Itoa now) \<and>
           summary dh = LoadIndex_entries es \<and>
           bloomfilter dh =
             foldl (\<lambda>b v. bf_Add x (Itoa (unat (eKey v))) b)
               (NewBloomFilter x (Count (LoadIndex_entries es))) (GetTable (LoadIndex_entries es)) \<and>
           files w' =
             (files w)(Join dbPath FolderCommitlog := None,
                       Join dbPath (Itoa now) \<mapsto>
                         d\<lparr>fileCommitlog := None, fileData := Some frames,
                           fileBloomFilter :=
                             Some (if flt FailWriteBloom then None else Some (bloomfilter dh))\<rparr>) \<and>
           slog w' = slog w \<and>
           \<not> flt FailRenameFile \<and> \<not> flt FailRenameDir \<and> \<not> flt FailOpenFile \<and>
           \<not> flt FailLoadIndex \<and> \<not> flt FailCreateBloom"
  using assms Itoa_not_commitlog [of dbPath now]
  by (auto simp: newDataHolder_def Let_def split: option.splits if_splits)

lemma newDataHolder_bloom:
  assumes seal: "newDataHolder x flt now dbPath w = (Inr dh, w')"
    and bits: "0 < bfBits x (Count (summary dh))"
  shows "\<forall>e\<in>set (summary dh). Contains x (bloomfilter dh) (Itoa (unat (eKey e))) = Some True"
proof -
  from newDataHolder_Inr [OF seal] obtain es where
    sm: "summary dh = LoadIndex_entries es" and
    bf: "bloomfilter dh =
           foldl (\<lambda>b v. bf_Add x (Itoa (unat (eKey v))) b)
             (NewBloomFilter x (Count (LoadIndex_entries es))) (GetTable (LoadIndex_entries es))"
    by blast
  from bits sm have nz: "bfSize (NewBloomFilter x (Count (LoadIndex_entries es))) \<noteq> 0"
    by (simp add: NewBloomFilter_def)
  show ?thesis
    unfolding bf sm GetTable_def
    using Contains_foldl_bf_Add [OF nz, where f = "\<lambda>v. Itoa (unat (eKey v))"]
    by blast
qed

lemma openDataHolder_sealed:
  assumes seal: "newDataHolder x flt now dbPath w = (Inr dh, w')"
    and ok: "\<not> flt FailWriteBloom" "\<not> flt' FailOpenFile" "\<not> flt' FailLoadIndex"
  shows "openDataHolder flt' (path dh) w' = Inr dh"
proof -
  from newDataHolder_Inr [OF seal] obtain d frames es where
    ix: "fileIndex d = Some es" and
    p: "path dh = Join dbPath (Itoa now)" and
    sm: "summary dh = LoadIndex_entries es" and
    fs: "files w' =
           (files w)(Join dbPath FolderCommitlog := None,
                     Join dbPath (Itoa now) \<mapsto>
                       d\<lparr>fileCommitlog := None, fileData := Some frames,
                         fileBloomFilter :=
                           Some (if flt FailWriteBloom then None else Some (bloomfilter dh))\<rparr>)"
    by blast
  show ?thesis
    using ok by (simp add: openDataHolder_def fs p ix sm [symmetric])
qed


section \<open>Insert\<close>

lemma newDataHolder_Inr_files:
  assumes "newDataHolder x flt now dbPath w = (Inr dh, w')"
  shows "(\<exists>d. files w' (path dh) = Some d \<and> fileData d \<noteq> None \<and> fileIndex d \<noteq> None \<and>
              fileBloomFilter d \<noteq> None) \<and>
         files w' (Join dbPath FolderCommitlog) = None"
proof -
  from newDataHolder_Inr [OF assms] obtain d frames es where
    ix: "fileIndex d = Some es" and
    p: "path dh = Join dbPath (Itoa now)" and
    fs: "files w' =
           (files w)(Join dbPath FolderCommitlog := None,
                     Join dbPath (Itoa now) \<mapsto>
                       d\<lparr>fileCommitlog := None, fileData := Some frames,
                         fileBloomFilter :=
                           Some (if flt FailWriteBloom then None else Some (bloomfilter dh))\<rparr>)"
    by blast
  have ne: "Join dbPath FolderCommitlog \<noteq> Join dbPath (Itoa now)"
    using Itoa_not_commitlog [of dbPath now] by simp
  show ?thesis
    by (simp add: fs p ix ne)
qed




lemma InsertData_rollover_fail:
  assumes "commitlog_Size flt (commitlog db) w = Inr sz"
    and "MaxDataLogSize (Descriptor db) < sz + int (unat (Size df))"
    and "newDataHolder x flt now (Path (Descriptor db)) w = (Inl err, w1)"
  shows "InsertData x flt now df db w =
           (Some err,
            db\<lparr>cache := cache_Put (Hash32 x (Key df)) (ToByteStream x df) (cache db)\<rparr>, w1)"
  using assms by (simp add: InsertData_def Let_def)

lemma InsertData_rollover_ok:
  assumes "commitlog_Size flt (commitlog db) w = Inr sz"
    and "MaxDataLogSize (Descriptor db) < sz + int (unat (Size df))"
    and "newDataHolder x flt now (Path (Descriptor db)) w = (Inr ndh, w1)"
  shows "InsertData x flt now df db w =
           (case NewCommitLog (Path (Descriptor db)) w1 of
              (cl, w2) \<Rightarrow>
                (case commitlog_Add x flt (Key df) (Status df) (ToByteStream x df) cl w2 of
                   (err, cl', w3) \<Rightarrow>
                     (err,
                      db\<lparr>cache := cache_Put (Hash32 x (Key df)) (ToByteStream x df) (cache db),
                         dhList := dhList db @ [ndh], commitlog := cl'\<rparr>, w3)))"
  using assms by (simp add: InsertData_def Let_def split: prod.splits)

lemma InsertData_no_rollover:
  assumes "commitlog_Size flt (commitlog db) w = Inr sz"
    and "\<not> MaxDataLogSize (Descriptor db) < sz + int (unat (Size df))"
  shows "InsertData x flt now df db w =
           (case commitlog_Add x flt (Key df) (Status df) (ToByteStream x df) (commitlog db) w of
              (err, cl', w3) \<Rightarrow>
                (err,
                 db\<lparr>cache := cache_Put (Hash32 x (Key df)) (ToByteStream x df) (cache db),
                    commitlog := cl'\<rparr>, w3))"
  using assms by (simp add: InsertData_def Let_def split: prod.splits)

lemma InsertData_size_fail:
  assumes "commitlog_Size flt (commitlog db) w = Inl err"
  shows "InsertData x flt now df db w =
           (Some err,
            db\<lparr>cache := cache_Put (Hash32 x (Key df)) (ToByteStream x df) (cache db)\<rparr>, w)"
  using assms by (simp add: InsertData_def Let_def)




section \<open>Appending to the commitlog\<close>

lemma fileLen_append [simp]: "fileLen (fs @ [b]) = fileLen fs + int (length b)"
  by (simp add: fileLen_def)


lemma commitlog_Add_err:
  "commitlog_Add x flt key st bs c w = (Some e, c', w') \<Longrightarrow> c' = c \<and> w' = w"
  by (auto simp: commitlog_Add_def Let_def split: if_splits option.splits)

lemma commitlog_Add_fault:
  "flt FailAppend \<Longrightarrow> commitlog_Add x flt key st bs c w = (Some (IOError FailAppend), c, w)"
  by (simp add: commitlog_Add_def)


lemma NewCommitLog_fresh:
  "files w (Join p FolderCommitlog) = None \<Longrightarrow> NewCommitLog p w = (cl, w2) \<Longrightarrow>
     commitlog_file cl w2 = Some [] \<and> clSummary cl = [] \<and> filepath cl = Join p FolderCommitlog"
  by (auto simp: NewCommitLog_def commitlog_file_def Let_def emptyDir_def)





section \<open>The cache\<close>

lemma cache_Get_Put:
  "0 < capacity c \<Longrightarrow> fst (cache_Get k (cache_Put k v c)) = Some v"
  by (cases "capacity c") (simp_all add: cache_Get_def cache_Put_def)

lemma cache_Get_capacity [simp]: "capacity (snd (cache_Get k c)) = capacity c"
  by (simp add: cache_Get_def split: option.splits)

text \<open>
  C8, as the code has it, step by step. A failure of reading the commitlog size
  makes Insert return the error with nothing changed but the cache. A failure of the
  rotation makes Insert return the error with the commitlog handle and the list of
  dataHolders unchanged, in the world the rotation steps before the failing one have
  left. A failure of the append without rotation makes Insert return the error with
  nothing changed but the cache, also on disk. A failure of the append after a
  successful rotation makes Insert return the error while the rotation stands: the
  sealed dataHolder is in the list and the fresh empty commitlog is in place. An
  injected failure of the size or of the append always makes Insert return an error.
  After any failed Insert, Get of the key answers from the cache with what
  deserializing the bytes of the failed Insert gives, as long as the cache holds
  entries at all.
\<close>

theorem failed_insert_state:
  "(\<forall>e. commitlog_Size flt (commitlog db) w = Inl e \<longrightarrow>
      InsertData x flt now df db w =
        (Some e, db\<lparr>cache := cache_Put (Hash32 x (Key df)) (ToByteStream x df) (cache db)\<rparr>, w)) \<and>
   (\<forall>sz e w1. commitlog_Size flt (commitlog db) w = Inr sz \<and>
      MaxDataLogSize (Descriptor db) < sz + int (unat (Size df)) \<and>
      newDataHolder x flt now (Path (Descriptor db)) w = (Inl e, w1) \<longrightarrow>
      InsertData x flt now df db w =
        (Some e, db\<lparr>cache := cache_Put (Hash32 x (Key df)) (ToByteStream x df) (cache db)\<rparr>, w1)) \<and>
   (\<forall>sz e c' w'. commitlog_Size flt (commitlog db) w = Inr sz \<and>
      \<not> MaxDataLogSize (Descriptor db) < sz + int (unat (Size df)) \<and>
      commitlog_Add x flt (Key df) (Status df) (ToByteStream x df) (commitlog db) w = (Some e, c', w') \<longrightarrow>
      InsertData x flt now df db w =
        (Some e, db\<lparr>cache := cache_Put (Hash32 x (Key df)) (ToByteStream x df) (cache db)\<rparr>, w)) \<and>
   (\<forall>sz ndh w1 e c' w'. commitlog_Size flt (commitlog db) w = Inr sz \<and>
      MaxDataLogSize (Descriptor db) < sz + int (unat (Size df)) \<and>
      newDataHolder x flt now (Path (Descriptor db)) w = (Inr ndh, w1) \<and>
      commitlog_Add x flt (Key df) (Status df) (ToByteStream x df)
        (fst (NewCommitLog (Path (Descriptor db)) w1))
        (snd (NewCommitLog (Path (Descriptor db)) w1)) = (Some e, c', w') \<longrightarrow>
      InsertData x flt now df db w =
        (Some e,
         db\<lparr>cache := cache_Put (Hash32 x (Key df)) (ToByteStream x df) (cache db),
            dhList := dhList db @ [ndh],
            commitlog := fst (NewCommitLog (Path (Descriptor db)) w1)\<rparr>,
         snd (NewCommitLog (Path (Descriptor db)) w1)) \<and>
      commitlog_file (fst (NewCommitLog (Path (Descriptor db)) w1))
        (snd (NewCommitLog (Path (Descriptor db)) w1)) = Some []) \<and>
   (flt FailSize \<or> flt FailAppend \<longrightarrow> (\<exists>e. fst (InsertData x flt now df db w) = Some e)) \<and>
   (\<forall>e db' w'. InsertData x flt now df db w = (Some e, db', w') \<and> 0 < capacity (cache db) \<longrightarrow>
      fst (GetDataByKey x (Key df) db' w') = decoded x (Some (ToByteStream x df)))"
proof (intro conjI allI impI)
  fix e
  assume "commitlog_Size flt (commitlog db) w = Inl e"
  then show "InsertData x flt now df db w =
        (Some e, db\<lparr>cache := cache_Put (Hash32 x (Key df)) (ToByteStream x df) (cache db)\<rparr>, w)"
    by (rule InsertData_size_fail)
next
  fix sz e w1
  assume "commitlog_Size flt (commitlog db) w = Inr sz \<and>
      MaxDataLogSize (Descriptor db) < sz + int (unat (Size df)) \<and>
      newDataHolder x flt now (Path (Descriptor db)) w = (Inl e, w1)"
  then show "InsertData x flt now df db w =
        (Some e, db\<lparr>cache := cache_Put (Hash32 x (Key df)) (ToByteStream x df) (cache db)\<rparr>, w1)"
    by (simp add: InsertData_rollover_fail)
next
  fix sz e c' w'
  assume a: "commitlog_Size flt (commitlog db) w = Inr sz \<and>
      \<not> MaxDataLogSize (Descriptor db) < sz + int (unat (Size df)) \<and>
      commitlog_Add x flt (Key df) (Status df) (ToByteStream x df) (commitlog db) w = (Some e, c', w')"
  then have ad: "commitlog_Add x flt (Key df) (Status df) (ToByteStream x df) (commitlog db) w =
                   (Some e, c', w')" by simp
  from commitlog_Add_err [OF ad] have "c' = commitlog db" "w' = w" by simp_all
  with a show "InsertData x flt now df db w =
        (Some e, db\<lparr>cache := cache_Put (Hash32 x (Key df)) (ToByteStream x df) (cache db)\<rparr>, w)"
    by (simp add: InsertData_no_rollover)
next
  fix sz ndh w1 e c' w'
  assume a: "commitlog_Size flt (commitlog db) w = Inr sz \<and>
      MaxDataLogSize (Descriptor db) < sz + int (unat (Size df)) \<and>
      newDataHolder x flt now (Path (Descriptor db)) w = (Inr ndh, w1) \<and>
      commitlog_Add x flt (Key df) (Status df) (ToByteStream x df)
        (fst (NewCommitLog (Path (Descriptor db)) w1))
        (snd (NewCommitLog (Path (Descriptor db)) w1)) = (Some e, c', w')"
  then have ad: "commitlog_Add x flt (Key df) (Status df) (ToByteStream x df)
        (fst (NewCommitLog (Path (Descriptor db)) w1))
        (snd (NewCommitLog (Path (Descriptor db)) w1)) = (Some e, c', w')"
    and s: "newDataHolder x flt now (Path (Descriptor db)) w = (Inr ndh, w1)"
    by simp_all
  from a have sz: "commitlog_Size flt (commitlog db) w = Inr sz"
    and over: "MaxDataLogSize (Descriptor db) < sz + int (unat (Size df))"
    by simp_all
  obtain cl w2 where nc: "NewCommitLog (Path (Descriptor db)) w1 = (cl, w2)"
    by (cases "NewCommitLog (Path (Descriptor db)) w1")
  from ad nc have ad': "commitlog_Add x flt (Key df) (Status df) (ToByteStream x df) cl w2 =
                         (Some e, c', w')" by simp
  from commitlog_Add_err [OF ad'] have "c' = cl" "w' = w2" by simp_all
  with InsertData_rollover_ok [OF sz over s] nc ad'
  show "InsertData x flt now df db w =
        (Some e,
         db\<lparr>cache := cache_Put (Hash32 x (Key df)) (ToByteStream x df) (cache db),
            dhList := dhList db @ [ndh],
            commitlog := fst (NewCommitLog (Path (Descriptor db)) w1)\<rparr>,
         snd (NewCommitLog (Path (Descriptor db)) w1))"
    by simp
  from newDataHolder_Inr_files [OF s]
  have "files w1 (Join (Path (Descriptor db)) FolderCommitlog) = None" by blast
  from NewCommitLog_fresh [OF this, of "fst (NewCommitLog (Path (Descriptor db)) w1)"
         "snd (NewCommitLog (Path (Descriptor db)) w1)"]
  show "commitlog_file (fst (NewCommitLog (Path (Descriptor db)) w1))
        (snd (NewCommitLog (Path (Descriptor db)) w1)) = Some []"
    by simp
next
  assume "flt FailSize \<or> flt FailAppend"
  then show "\<exists>e. fst (InsertData x flt now df db w) = Some e"
    by (auto simp: InsertData_def Let_def commitlog_Size_def commitlog_Add_fault
             split: sum.splits prod.splits option.splits)
next
  fix e db' w'
  assume a: "InsertData x flt now df db w = (Some e, db', w') \<and> 0 < capacity (cache db)"
  then have "cache db' = cache_Put (Hash32 x (Key df)) (ToByteStream x df) (cache db)"
    by (auto simp: InsertData_def Let_def split: sum.splits prod.splits if_splits)
  moreover from a have "fst (cache_Get (Hash32 x (Key df))
      (cache_Put (Hash32 x (Key df)) (ToByteStream x df) (cache db))) = Some (ToByteStream x df)"
    by (simp add: cache_Get_Put)
  ultimately show "fst (GetDataByKey x (Key df) db' w') = decoded x (Some (ToByteStream x df))"
    by (simp add: GetDataByKey_fst)
qed

theorem failed_insert_state_witness:
  "(\<exists>e. fst (InsertData demo_ext (onlyFault FailAppend) 15 rec_ff db_f world_f) = Some e) \<and>
   fst (GetDataByKey demo_ext ''ff''
          (db_f\<lparr>cache := cache_Put 2 [0, 2, 9] (cache db_f)\<rparr>) world_f) = (Some rec_ff, True)"
proof -
  have fail: "InsertData demo_ext (onlyFault FailAppend) 15 rec_ff db_f world_f =
                (Some (IOError FailAppend), db_f\<lparr>cache := cache_Put 2 [0, 2, 9] (cache db_f)\<rparr>, world_f)"
    by (simp add: demo_defs op_defs)
  have f: "onlyFault FailAppend FailAppend"
    by (simp add: onlyFault_def)
  have cap: "0 < capacity (cache db_f)"
    by (simp add: db_f_def)
  have k: "Key rec_ff = ''ff''"
    by (simp add: rec_ff_def)
  have d: "decoded demo_ext (Some (ToByteStream demo_ext rec_ff)) = (Some rec_ff, True)"
    by (simp add: demo_defs decoded_def)
  note t = failed_insert_state [of "onlyFault FailAppend" db_f world_f demo_ext 15 rec_ff]
  from t f have a: "\<exists>e. fst (InsertData demo_ext (onlyFault FailAppend) 15 rec_ff db_f world_f) = Some e"
    by blast
  from t fail cap
  have "fst (GetDataByKey demo_ext (Key rec_ff)
          (db_f\<lparr>cache := cache_Put 2 [0, 2, 9] (cache db_f)\<rparr>) world_f) =
        decoded demo_ext (Some (ToByteStream demo_ext rec_ff))"
    by blast
  then have "fst (GetDataByKey demo_ext ''ff''
          (db_f\<lparr>cache := cache_Put 2 [0, 2, 9] (cache db_f)\<rparr>) world_f) = (Some rec_ff, True)"
    by (simp only: k d)
  with a show ?thesis by blast
qed

text \<open>
  C8 as stated fails three times: after an Insert whose append failed, the commitlog
  does not have the key, yet Get returns the record (from the cache); an Insert whose
  append fails after a successful rotation has added the sealed dataHolder to the list;
  and an Insert whose rotation fails at the renaming of the directory has already
  renamed the commitlog file away, so that the next Insert fails too.
\<close>

theorem failed_insert_counterexample:
  "fst (InsertData demo_ext (onlyFault FailAppend) 15 rec_ff db_f world_f) = Some (IOError FailAppend) \<and>
   commitlog_Get demo_ext ''ff''
     (commitlog (fst (snd (InsertData demo_ext (onlyFault FailAppend) 15 rec_ff db_f world_f))))
     (snd (snd (InsertData demo_ext (onlyFault FailAppend) 15 rec_ff db_f world_f))) = None \<and>
   fst (GetDataByKey demo_ext ''ff''
     (fst (snd (InsertData demo_ext (onlyFault FailAppend) 15 rec_ff db_f world_f)))
     (snd (snd (InsertData demo_ext (onlyFault FailAppend) 15 rec_ff db_f world_f)))) =
     (Some rec_ff, True) \<and>
   fst (InsertData demo_ext (onlyFault FailAppend) 15 rec_f_removed db_full world_full) =
     Some (IOError FailAppend) \<and>
   dhList db_full = [] \<and>
   dhList (fst (snd (InsertData demo_ext (onlyFault FailAppend) 15 rec_f_removed db_full world_full))) =
     [sealedDh ''db/15''] \<and>
   fst (InsertData demo_ext (onlyFault FailRenameDir) 15 rec_f_removed db_full world_full) =
     Some (IOError FailRenameDir) \<and>
   commitlog_file (commitlog db_full) world_full = Some [[0, 1, 7], [0, 2, 9]] \<and>
   commitlog_file (commitlog db_full)
     (snd (snd (InsertData demo_ext (onlyFault FailRenameDir) 15 rec_f_removed db_full world_full))) =
     None \<and>
   fst (InsertData demo_ext noFault 16 rec_f_removed
     (fst (snd (InsertData demo_ext (onlyFault FailRenameDir) 15 rec_f_removed db_full world_full)))
     (snd (snd (InsertData demo_ext (onlyFault FailRenameDir) 15 rec_f_removed db_full world_full)))) =
     Some (NoSuchFile ''db/commitlog'')"
  by (simp add: demo_defs op_defs Itoa_small)

section \<open>What compaction leaves alone\<close>

lemma LookUp_summary_Add:
  "LookUp (summary_Add e s) k \<noteq> None \<longleftrightarrow> k = eKey e \<or> LookUp s k \<noteq> None"
  unfolding LookUp_def summary_Add_def find_None_iff
  by (cases "k = eKey e") auto

lemma commitlog_Add_keeps_deleted:
  "files w p = None \<Longrightarrow> files (snd (snd (commitlog_Add x flt key st bs c w))) p = None"
  by (auto simp: commitlog_Add_def Let_def split: option.splits)

lemma dataHolder_Get_files [simp]: "files (snd (dataHolder_Get d pos w)) = files w"
  using dataHolder_Get_cases [of d pos w] by (auto simp: logw_def)

text \<open>
  A property of the commitlog and world that every step of the rewrite loop preserves
  also holds of what the loop returns, whether it ends normally or by a panic. The
  step that appends may rely on where the frame comes from: an entry of the table that
  is not tombstoned, whose frame was read from the data file and deserialized.
\<close>

lemma rewriteSurvivors_preserves_sub:
  assumes add: "\<And>v b df c w. v \<in> S \<Longrightarrow> \<not> containsKey (eKey v) T \<Longrightarrow> P c w \<Longrightarrow>
              dataHolder_Get dh (eOffset v) w = ((Some b, None), w) \<Longrightarrow>
              NewDataDefinitionFromByteStream x (Some b) = Some df \<Longrightarrow>
              P (fst (snd (commitlog_Add x flt (Key df) (Status df) b c w)))
                (snd (snd (commitlog_Add x flt (Key df) (Status df) b c w)))"
    and lg: "\<And>c w m. P c w \<Longrightarrow> P c (logw m w)"
    and P: "P cl w"
    and sub: "set vs \<subseteq> S"
  shows "case rewriteSurvivors x flt dh T vs cl w of
           Inl (cl', w') \<Rightarrow> P cl' w' | Inr (cl', w') \<Rightarrow> P cl' w'"
  using P sub
proof (induction vs arbitrary: cl w)
  case Nil
  then show ?case by simp
next
  case (Cons v vs)
  from Cons.prems have vS: "v \<in> S" and sub': "set vs \<subseteq> S" by simp_all
  show ?case
  proof (cases "containsKey (eKey v) T")
    case True
    with Cons.IH [OF Cons.prems(1) sub'] show ?thesis by simp
  next
    case False
    from dataHolder_Get_cases [of dh "eOffset v" w]
    show ?thesis
    proof
      assume g: "dataHolder_Get dh (eOffset v) w = ((None, None), logw (ErrFileCorrupted (path dh)) w)"
      with False lg [OF Cons.prems(1)] show ?thesis
        by (simp split: option.splits)
    next
      assume "\<exists>b. dataHolder_Get dh (eOffset v) w = ((Some b, None), w)"
      then obtain b where g: "dataHolder_Get dh (eOffset v) w = ((Some b, None), w)" ..
      show ?thesis
      proof (cases "NewDataDefinitionFromByteStream x (Some b)")
        case None
        with False g Cons.prems(1) show ?thesis by simp
      next
        case (Some df)
        obtain e cl' w2 where ad: "commitlog_Add x flt (Key df) (Status df) b cl w = (e, cl', w2)"
          by (cases "commitlog_Add x flt (Key df) (Status df) b cl w")
        from add [OF vS False Cons.prems(1) g Some] ad have "P cl' w2" by simp
        then have "P cl' (logw (Infof (''add:'' @ Key df)) w2)" by (rule lg)
        from Cons.IH [OF this sub'] False g Some ad show ?thesis by simp
      qed
    qed
  qed
qed

lemma compactLoop_preserves_sub:
  assumes add: "\<And>dh v b df c w. dh \<in> D \<Longrightarrow> v \<in> set (summary dh) \<Longrightarrow>
              \<not> containsKey (eKey v) T \<Longrightarrow> P c w \<Longrightarrow>
              dataHolder_Get dh (eOffset v) w = ((Some b, None), w) \<Longrightarrow>
              NewDataDefinitionFromByteStream x (Some b) = Some df \<Longrightarrow>
              P (fst (snd (commitlog_Add x flt (Key df) (Status df) b c w)))
                (snd (snd (commitlog_Add x flt (Key df) (Status df) b c w)))"
    and lg: "\<And>c w m. P c w \<Longrightarrow> P c (logw m w)"
    and del: "\<And>c w dh. P c w \<Longrightarrow> dh \<in> D \<Longrightarrow> P c (DeleteDir (path dh) w)"
    and P: "P cl w"
    and sub: "set dhs \<subseteq> D"
  shows "P (fst (snd (compactLoop x flt T dhs cl w))) (snd (snd (compactLoop x flt T dhs cl w)))"
  using P sub
proof (induction dhs arbitrary: cl w)
  case Nil
  then show ?case by simp
next
  case (Cons dh rest)
  from Cons.prems have dD: "dh \<in> D" and sub': "set rest \<subseteq> D" by simp_all
  show ?case
  proof (cases "dhContainsAnyTombstone dh T")
    case False
    with Cons.IH [OF Cons.prems(1) sub'] show ?thesis by simp
  next
    case True
    have r: "case rewriteSurvivors x flt dh T (GetTable (summary dh)) cl w of
               Inl (cl', w') \<Rightarrow> P cl' w' | Inr (cl', w') \<Rightarrow> P cl' w'"
    proof (rule rewriteSurvivors_preserves_sub [where P = P and S = "set (summary dh)"])
      fix v b df c w
      assume "v \<in> set (summary dh)" "\<not> containsKey (eKey v) T" "P c w"
        "dataHolder_Get dh (eOffset v) w = ((Some b, None), w)"
        "NewDataDefinitionFromByteStream x (Some b) = Some df"
      then show "P (fst (snd (commitlog_Add x flt (Key df) (Status df) b c w)))
                (snd (snd (commitlog_Add x flt (Key df) (Status df) b c w)))"
        by (rule add [OF dD])
    next
      show "set (GetTable (summary dh)) \<subseteq> set (summary dh)" by (simp add: GetTable_def)
    next
      fix c w m
      assume "P c w"
      then show "P c (logw m w)" by (rule lg)
    next
      show "P cl w" by (rule Cons.prems(1))
    qed
    show ?thesis
    proof (cases "rewriteSurvivors x flt dh T (GetTable (summary dh)) cl w")
      case (Inl a)
      with r True show ?thesis by (cases a) simp
    next
      case (Inr a)
      obtain cl' w' where a: "a = (cl', w')" by (cases a)
      with r Inr have "P cl' w'" by simp
      then have "P cl' (DeleteDir (path dh) w')" using dD by (rule del)
      from Cons.IH [OF this sub'] True Inr a show ?thesis by simp
    qed
  qed
qed

lemma compactLoop_preserves:
  assumes add: "\<And>key st b c w. P c w \<Longrightarrow>
              P (fst (snd (commitlog_Add x flt key st b c w))) (snd (snd (commitlog_Add x flt key st b c w)))"
    and lg: "\<And>c w m. P c w \<Longrightarrow> P c (logw m w)"
    and del: "\<And>c w p. P c w \<Longrightarrow> P c (DeleteDir p w)"
    and P: "P cl w"
  shows "P (fst (snd (compactLoop x flt T dhs cl w))) (snd (snd (compactLoop x flt T dhs cl w)))"
  by (rule compactLoop_preserves_sub [where P = P and D = "set dhs"])
     (simp_all add: add lg del P)

lemma compactLoop_keeps_deleted:
  "files w p = None \<Longrightarrow> files (snd (snd (compactLoop x flt T dhs cl w))) p = None"
  by (rule compactLoop_preserves [where P = "\<lambda>c w. files w p = None"])
     (simp_all add: commitlog_Add_keeps_deleted logw_def DeleteDir_def)

lemma compactLoop_FailAppend:
  "flt FailAppend \<Longrightarrow> fst (snd (compactLoop x flt T dhs cl w)) = cl"
  by (rule compactLoop_preserves [where P = "\<lambda>c w. c = cl"])
     (simp_all add: commitlog_Add_fault)

lemma compactLoop_deletes:
  "fst (compactLoop x flt T dhs cl w) = Finished \<Longrightarrow> dh \<in> set dhs \<Longrightarrow>
     dhContainsAnyTombstone dh T \<Longrightarrow>
     files (snd (snd (compactLoop x flt T dhs cl w))) (path dh) = None"
proof (induction dhs arbitrary: cl w)
  case Nil
  then show ?case by simp
next
  case (Cons d rest)
  show ?case
  proof (cases "dhContainsAnyTombstone d T")
    case False
    with Cons show ?thesis by auto
  next
    case True
    show ?thesis
    proof (cases "rewriteSurvivors x flt d T (GetTable (summary d)) cl w")
      case (Inl a)
      with True Cons.prems(1) show ?thesis by (cases a) simp
    next
      case (Inr a)
      obtain cl' w' where a: "a = (cl', w')" by (cases a)
      from True Inr a have step: "compactLoop x flt T (d # rest) cl w =
          compactLoop x flt T rest cl' (DeleteDir (path d) w')"
        by simp
      show ?thesis
      proof (cases "dh \<in> set rest")
        case True
        with Cons.IH [of cl' "DeleteDir (path d) w'"] Cons.prems step show ?thesis by simp
      next
        case False
        with Cons.prems have "dh = d" by simp
        moreover have "files (DeleteDir (path d) w') (path d) = None"
          by (simp add: DeleteDir_def)
        ultimately show ?thesis
          unfolding step by (simp add: compactLoop_keeps_deleted)
      qed
    qed
  qed
qed

lemma doCompaction_proj:
  "fst (doCompaction x sched flt db w) =
     fst (compactLoop x flt (geTombstonesFromDb sched db @ getTombstonesFromCommitlog db) (dhList db)
            (commitlog db) w)"
  "fst (snd (doCompaction x sched flt db w)) =
     db\<lparr>commitlog :=
          fst (snd (compactLoop x flt (geTombstonesFromDb sched db @ getTombstonesFromCommitlog db)
                      (dhList db) (commitlog db) w))\<rparr>"
  "snd (snd (doCompaction x sched flt db w)) =
     snd (snd (compactLoop x flt (geTombstonesFromDb sched db @ getTombstonesFromCommitlog db)
                 (dhList db) (commitlog db) w))"
  by (simp_all add: doCompaction_def Let_def split: prod.splits)

lemma doCompaction_cache [simp]: "cache (fst (snd (doCompaction x sched flt db w))) = cache db"
  by (simp add: doCompaction_proj)

lemma doCompaction_dhList [simp]: "dhList (fst (snd (doCompaction x sched flt db w))) = dhList db"
  by (simp add: doCompaction_proj)

text \<open>
  C9 on the code, at a failing append. Before the run, ff is found (in the data file
  \<open>db/15\<close>, which also holds the tombstoned f). The run drops the error of
  \<open>commitlog.Add\<close>, logs the record as added, finishes, leaves the commitlog as it was
  and deletes \<open>db/15\<close>: the live record ff was not rewritten and is lost.
\<close>

theorem compaction_append_failure:
  "fst (GetDataByKey demo_ext ''ff'' (db_tomb 0) world_tomb) = (Some rec_ff, True) \<and>
   fst (doCompaction demo_ext sched (onlyFault FailAppend) (db_tomb 0) world_tomb) = Finished \<and>
   slog (snd (snd (doCompaction demo_ext sched (onlyFault FailAppend) (db_tomb 0) world_tomb))) =
     [Infof ''add:ff''] \<and>
   commitlog (fst (snd (doCompaction demo_ext sched (onlyFault FailAppend) (db_tomb 0) world_tomb))) =
     commitlog (db_tomb 0) \<and>
   files (snd (snd (doCompaction demo_ext sched (onlyFault FailAppend) (db_tomb 0) world_tomb))) ''db/15'' =
     None \<and>
   fst (GetDataByKey demo_ext ''ff''
          (fst (snd (doCompaction demo_ext sched (onlyFault FailAppend) (db_tomb 0) world_tomb)))
          (snd (snd (doCompaction demo_ext sched (onlyFault FailAppend) (db_tomb 0) world_tomb)))) =
     (None, False)"
  by (simp add: demo_defs op_defs Itoa_small)

section \<open>The collection of tombstones\<close>

text \<open>
  C2 on the code, when the goroutines of \<open>geTombstonesFromDb\<close> read the range variable
  after the loop has ended. The older data file \<open>db/15\<close> holds the tombstone of f, which
  is among the REMOVED entries of the data files, and is therefore a data file with a
  tombstoned key hash. Both goroutines read the newer dataHolder \<open>db/16\<close>, which has no
  REMOVED entry: the run collects no tombstone, appends nothing, deletes nothing and
  leaves the database and the disk as they were.
\<close>

theorem compaction_misses_tombstones:
  "tombstoneEntries db_two = [entry_f_removed] \<and>
   affected db_two (tombDh ''db/15'') \<and>
   geTombstonesFromDb (lateSched 2) db_two @ getTombstonesFromCommitlog db_two = [] \<and>
   doCompaction demo_ext (lateSched 2) noFault db_two world_two = (Finished, db_two, world_two) \<and>
   files world_two ''db/15'' = Some tombDir"
  by (simp add: demo_defs op_defs tombstoneEntries_def affected_def tombstoned_def)

end
